theory Spec2Isabelle
  imports Complex_Main
begin

section \<open>Numbers\<close>

text \<open>
  The program is TypeScript; its \<^verbatim>\<open>number\<close> values are modelled by \<^typ>\<open>real\<close>: finite
  values with exact arithmetic.  Rounding is outside this model.  Two kinds of value that
  are not finite numbers are kept explicit, because the program produces them from
  well-typed input by its own operations: the two infinite sentinels that initialise the
  running minimum and maximum elevation in \<^verbatim>\<open>calculateTrackStats\<close> (type \<open>bound\<close>), and
  the not-a-number time value of an invalid \<^verbatim>\<open>Date\<close> (types \<open>Date\<close> and \<open>number\<close>).
\<close>

datatype bound = Infinity | NegInfinity | Finite real

text \<open>\<^verbatim>\<open>Math.min(minElevation, point.ele)\<close> and \<^verbatim>\<open>Math.max(maxElevation, point.ele)\<close>:
  the first argument is the running bound, the second a finite elevation.\<close>

fun Math_min :: "bound \<Rightarrow> real \<Rightarrow> bound" where
  "Math_min Infinity e = Finite e"
| "Math_min NegInfinity e = NegInfinity"
| "Math_min (Finite m) e = Finite (min m e)"

fun Math_max :: "bound \<Rightarrow> real \<Rightarrow> bound" where
  "Math_max Infinity e = Infinity"
| "Math_max NegInfinity e = Finite e"
| "Math_max (Finite m) e = Finite (max m e)"

text \<open>A \<^verbatim>\<open>Date\<close> object: a valid date with its time value in milliseconds, or the
  Invalid Date that the constructor gives for a string it cannot read.  An Invalid Date
  is an object, so it is truthy; its time value is not a number, and every comparison
  with it is false.\<close>

datatype Date = ValidDate int | InvalidDate

datatype number = NaN | Num real

fun getTime :: "Date \<Rightarrow> number" where
  "getTime (ValidDate t) = Num (real_of_int t)"
| "getTime InvalidDate = NaN"

text \<open>\<^verbatim>\<open>a < b\<close> on two dates, which compares their time values.\<close>

fun date_less :: "Date \<Rightarrow> Date \<Rightarrow> bool" where
  "date_less (ValidDate a) (ValidDate b) = (a < b)"
| "date_less a b = False"

text \<open>\<^verbatim>\<open>x - y\<close> on two time values and \<^verbatim>\<open>x / k\<close> by a finite constant.\<close>

fun minus_number :: "number \<Rightarrow> number \<Rightarrow> number" where
  "minus_number (Num x) (Num y) = Num (x - y)"
| "minus_number x y = NaN"

fun divide_number :: "number \<Rightarrow> real \<Rightarrow> number" where
  "divide_number (Num x) k = Num (x / k)"
| "divide_number NaN k = NaN"

text \<open>\<^verbatim>\<open>Math.atan2(y, x)\<close>: the angle of the point \<open>(x, y)\<close>, in \<open>(-\<pi>, \<pi>]\<close>.\<close>

definition Math_atan2 :: "real \<Rightarrow> real \<Rightarrow> real" where
  "Math_atan2 y x =
     (if 0 < x then arctan (y / x)
      else if x < 0 then (if 0 \<le> y then arctan (y / x) + pi else arctan (y / x) - pi)
      else if 0 < y then pi / 2
      else if y < 0 then - (pi / 2)
      else 0)"

section \<open>Data model (types/track.ts)\<close>

record TrackPoint =
  lat :: real
  lon :: real
  ele :: "real option"
  time :: "Date option"

record TrackSegment =
  points :: "TrackPoint list"

datatype LineStyle = solid | dashed | dotted

record TrackStyle =
  color :: string
  width :: real
  opacity :: real
  lineStyle :: LineStyle

record TrackStats =
  distance :: real
  elevationGain :: real
  elevationLoss :: real
  minElevation :: bound
  maxElevation :: bound
  duration :: "number option"

record Track =
  track_id :: string
  name :: string
  segments :: "TrackSegment list"
  style :: TrackStyle
  visible :: bool
  stats :: "TrackStats option"

section \<open>Geodesic distance (lib/gpx-parser.ts, calculateDistance)\<close>

text \<open>The local constant \<^verbatim>\<open>a\<close> of \<^verbatim>\<open>calculateDistance\<close>, with the four angles in radians
  it is computed from.\<close>

definition haversine_a :: "real \<Rightarrow> real \<Rightarrow> real \<Rightarrow> real \<Rightarrow> real" where
  "haversine_a lat1 lon1 lat2 lon2 =
     (let phi1 = lat1 * pi / 180;
          phi2 = lat2 * pi / 180;
          dphi = (lat2 - lat1) * pi / 180;
          dlam = (lon2 - lon1) * pi / 180
      in sin (dphi / 2) * sin (dphi / 2) +
         cos phi1 * cos phi2 * sin (dlam / 2) * sin (dlam / 2))"

definition calculateDistance :: "real \<Rightarrow> real \<Rightarrow> real \<Rightarrow> real \<Rightarrow> real" where
  "calculateDistance lat1 lon1 lat2 lon2 =
     (let R = 6371000;
          a = haversine_a lat1 lon1 lat2 lon2;
          c = 2 * Math_atan2 (sqrt a) (sqrt (1 - a))
      in R * c)"

section \<open>Track statistics (lib/gpx-parser.ts, calculateTrackStats)\<close>

text \<open>The local variables of \<^verbatim>\<open>calculateTrackStats\<close> that the loops update.\<close>

record stats_vars =
  totalDistance :: real
  elevationGain_v :: real
  elevationLoss_v :: real
  minElevation_v :: bound
  maxElevation_v :: bound
  startTime :: "Date option"
  endTime :: "Date option"

definition initial_vars :: stats_vars where
  "initial_vars =
     \<lparr>totalDistance = 0, elevationGain_v = 0, elevationLoss_v = 0,
      minElevation_v = Infinity, maxElevation_v = NegInfinity,
      startTime = None, endTime = None\<rparr>"

text \<open>The body of the \<^verbatim>\<open>for\<close> loop at index \<open>i\<close> of the segment's points \<open>ps\<close>.
  The loop only runs it for \<open>i < length ps\<close>, so both reads are in range.\<close>

definition point_step :: "TrackPoint list \<Rightarrow> nat \<Rightarrow> stats_vars \<Rightarrow> stats_vars" where
  "point_step ps i v =
     (let point = ps ! i;
          v1 = (case ele point of
                  Some e \<Rightarrow> v\<lparr>minElevation_v := Math_min (minElevation_v v) e,
                               maxElevation_v := Math_max (maxElevation_v v) e\<rparr>
                | None \<Rightarrow> v);
          v2 = (case time point of
                  Some t \<Rightarrow>
                    (let w = (if (case startTime v1 of None \<Rightarrow> True | Some s \<Rightarrow> date_less t s)
                              then v1\<lparr>startTime := Some t\<rparr> else v1)
                     in if (case endTime w of None \<Rightarrow> True | Some e \<Rightarrow> date_less e t)
                        then w\<lparr>endTime := Some t\<rparr> else w)
                | None \<Rightarrow> v1)
      in if 0 < i then
           (let prevPoint = ps ! (i - 1);
                d = calculateDistance (lat prevPoint) (lon prevPoint) (lat point) (lon point);
                v3 = v2\<lparr>totalDistance := totalDistance v2 + d\<rparr>
            in case (ele point, ele prevPoint) of
                 (Some e, Some pe) \<Rightarrow>
                   (let elevDiff = e - pe
                    in if 0 < elevDiff
                       then v3\<lparr>elevationGain_v := elevationGain_v v3 + elevDiff\<rparr>
                       else v3\<lparr>elevationLoss_v := elevationLoss_v v3 + \<bar>elevDiff\<bar>\<rparr>)
               | _ \<Rightarrow> v3)
         else v2)"

text \<open>\<^verbatim>\<open>for (let i = 0; i < segment.points.length; i++)\<close>, entered at index \<open>i\<close>.\<close>

function points_loop :: "TrackPoint list \<Rightarrow> nat \<Rightarrow> stats_vars \<Rightarrow> stats_vars" where
  "points_loop ps i v =
     (if i < length ps then points_loop ps (i + 1) (point_step ps i v) else v)"
  by pat_completeness auto
termination
  by (relation "measure (\<lambda>(ps, i, v). length ps - i)") auto

declare points_loop.simps [simp del]

definition calculateTrackStats :: "TrackSegment list \<Rightarrow> TrackStats" where
  "calculateTrackStats segs =
     (let v = fold (\<lambda>segment v. points_loop (points segment) 0 v) segs initial_vars;
          dur = (case (startTime v, endTime v) of
                   (Some s, Some e) \<Rightarrow>
                     Some (divide_number (minus_number (getTime e) (getTime s)) 1000)
                 | _ \<Rightarrow> None)
      in \<lparr>distance = totalDistance v,
          elevationGain = elevationGain_v v,
          elevationLoss = elevationLoss_v v,
          minElevation = (if minElevation_v v = Infinity then Finite 0 else minElevation_v v),
          maxElevation = (if maxElevation_v v = NegInfinity then Finite 0 else maxElevation_v v),
          duration = dur\<rparr>)"

section \<open>The statistics as the specification words them\<close>

text \<open>The adjacent pairs \<open>(previous, current)\<close> of a list, in order.\<close>

definition adjacent :: "'a list \<Rightarrow> ('a \<times> 'a) list" where
  "adjacent xs = zip xs (tl xs)"

definition over_pairs :: "(TrackPoint \<Rightarrow> TrackPoint \<Rightarrow> real) \<Rightarrow> TrackPoint list \<Rightarrow> real" where
  "over_pairs g ps = sum_list (map (\<lambda>(p, q). g p q) (adjacent ps))"

text \<open>The haversine distance between two points.\<close>

definition point_distance :: "TrackPoint \<Rightarrow> TrackPoint \<Rightarrow> real" where
  "point_distance p q = calculateDistance (lat p) (lon p) (lat q) (lon q)"

text \<open>What a pair \<open>(previous, current)\<close> adds to the gain and to the loss: nothing unless
  both points carry an elevation; a positive delta (current minus previous) is gain, the
  absolute value of a negative or zero delta is loss.\<close>

definition pair_gain :: "TrackPoint \<Rightarrow> TrackPoint \<Rightarrow> real" where
  "pair_gain p q =
     (case (ele p, ele q) of
        (Some a, Some b) \<Rightarrow> if 0 < b - a then b - a else 0
      | _ \<Rightarrow> 0)"

definition pair_loss :: "TrackPoint \<Rightarrow> TrackPoint \<Rightarrow> real" where
  "pair_loss p q =
     (case (ele p, ele q) of
        (Some a, Some b) \<Rightarrow> if b - a \<le> 0 then \<bar>b - a\<bar> else 0
      | _ \<Rightarrow> 0)"

definition segment_distance :: "TrackSegment \<Rightarrow> real" where
  "segment_distance segment = over_pairs point_distance (points segment)"

definition segment_gain :: "TrackSegment \<Rightarrow> real" where
  "segment_gain segment = over_pairs pair_gain (points segment)"

definition segment_loss :: "TrackSegment \<Rightarrow> real" where
  "segment_loss segment = over_pairs pair_loss (points segment)"

section \<open>Invariants of the running variables\<close>




section \<open>Example inputs\<close>

definition one_point_with_data :: "TrackSegment list" where
  "one_point_with_data =
     [\<lparr>points = [\<lparr>lat = 0, lon = 0, ele = Some 100, time = Some (ValidDate 0)\<rparr>]\<rparr>]"

definition two_bare_points :: "TrackSegment list" where
  "two_bare_points =
     [\<lparr>points = [\<lparr>lat = 0, lon = 0, ele = None, time = None\<rparr>,
                 \<lparr>lat = 0, lon = 1, ele = None, time = None\<rparr>]\<rparr>]"

definition one_bare_point :: "TrackSegment list" where
  "one_bare_point = [\<lparr>points = [\<lparr>lat = 48, lon = 2, ele = None, time = None\<rparr>]\<rparr>]"



section \<open>Strings and template literals\<close>

text \<open>The decimal digits of a natural number, as a template literal prints an index or a
  clock reading.\<close>

definition digit :: "nat \<Rightarrow> char" where
  "digit d = ''0123456789'' ! d"

function show_nat :: "nat \<Rightarrow> string" where
  "show_nat n = (if n < 10 then [digit n] else show_nat (n div 10) @ [digit (n mod 10)])"
  by pat_completeness auto
termination
  by (relation "measure (\<lambda>n. n)") auto

declare show_nat.simps [simp del]

text \<open>\<^verbatim>\<open>a || b\<close> on an optional string \<open>a\<close> and a string \<open>b\<close>: \<open>a\<close> when it is truthy, that
  is defined and not the empty string, else \<open>b\<close>.\<close>

definition or_string :: "string option \<Rightarrow> string \<Rightarrow> string" where
  "or_string a b = (case a of Some s \<Rightarrow> if s = [] then b else s | None \<Rightarrow> b)"

section \<open>GPX documents as the parser library exposes them (lib/gpx-parser.ts)\<close>

record GPXPoint =
  gpx_lat :: real
  gpx_lon :: real
  gpx_ele :: "real option"
  gpx_time :: "string option"

record GPXTrack =
  trk_name :: "string option"
  trk_points :: "GPXPoint list"

record GPXRoute =
  rte_name :: "string option"
  rte_points :: "GPXPoint list"

record GPXWaypoint =
  wpt_lat :: real
  wpt_lon :: real
  wpt_ele :: "real option"
  wpt_name :: "string option"

record GPXParserInstance =
  gpx_tracks :: "GPXTrack list option"
  gpx_routes :: "GPXRoute list option"
  gpx_waypoints :: "GPXWaypoint list option"

datatype error = Error string

definition GPXParserNotAvailable :: error where
  "GPXParserNotAvailable = Error ''GPX Parser not available''"

definition NoGeometryFound :: error where
  "NoGeometryFound = Error ''No tracks, routes, or waypoints found in GPX file''"

section \<open>The normalizer (lib/gpx-parser.ts, parseGPXString)\<close>

text \<open>The style every emitted track receives.\<close>

definition default_style :: TrackStyle where
  "default_style = \<lparr>color = ''#E53E3E'', width = 3, opacity = 1, lineStyle = solid\<rparr>"

text \<open>The point of a source track.  \<open>new_Date\<close> is the \<^verbatim>\<open>Date\<close> constructor on a string,
  which gives the Invalid Date for a string it cannot read; an empty time string is falsy
  and leaves the time undefined.\<close>

definition track_point :: "(string \<Rightarrow> Date) \<Rightarrow> GPXPoint \<Rightarrow> TrackPoint" where
  "track_point new_Date point =
     \<lparr>lat = gpx_lat point, lon = gpx_lon point, ele = gpx_ele point,
      time = (case gpx_time point of
                Some s \<Rightarrow> if s = [] then None else Some (new_Date s)
              | None \<Rightarrow> None)\<rparr>"

text \<open>The points of a route and the waypoints carry no time.\<close>

definition route_point :: "GPXPoint \<Rightarrow> TrackPoint" where
  "route_point point =
     \<lparr>lat = gpx_lat point, lon = gpx_lon point, ele = gpx_ele point, time = None\<rparr>"

definition waypoint_point :: "GPXWaypoint \<Rightarrow> TrackPoint" where
  "waypoint_point waypoint =
     \<lparr>lat = wpt_lat waypoint, lon = wpt_lon waypoint, ele = wpt_ele waypoint, time = None\<rparr>"

text \<open>The body of the inner \<^verbatim>\<open>forEach\<close> of a source track: open a first segment when there
  is none, then push the point onto the last segment.\<close>

definition push_last :: "TrackPoint \<Rightarrow> TrackSegment list \<Rightarrow> TrackSegment list" where
  "push_last trackPoint segs =
     (let segs1 = (if length segs = 0 then segs @ [\<lparr>points = []\<rparr>] else segs);
          k = length segs1 - 1
      in segs1[k := \<lparr>points = points (segs1 ! k) @ [trackPoint]\<rparr>])"

text \<open>\<^verbatim>\<open>segments[0].points.push(trackPoint)\<close>, on a list that starts with one empty segment.\<close>

definition push_first :: "TrackPoint \<Rightarrow> TrackSegment list \<Rightarrow> TrackSegment list" where
  "push_first trackPoint segs = segs[0 := \<lparr>points = points (segs ! 0) @ [trackPoint]\<rparr>]"

text \<open>The track pushed for a source track; \<open>now\<close> is the reading of \<^verbatim>\<open>Date.now()\<close>.\<close>

definition track_of_gpxTrack ::
  "(string \<Rightarrow> Date) \<Rightarrow> nat \<Rightarrow> string option \<Rightarrow> GPXTrack \<Rightarrow> nat \<Rightarrow> Track" where
  "track_of_gpxTrack new_Date now fileName gpxTrack trackIndex =
     (let segs = fold (\<lambda>point segs. push_last (track_point new_Date point) segs)
                   (trk_points gpxTrack) [];
          st = calculateTrackStats segs
      in \<lparr>track_id = ''track-'' @ show_nat now @ ''-'' @ show_nat trackIndex,
          name = or_string (trk_name gpxTrack)
                   (or_string fileName (''Track '' @ show_nat (trackIndex + 1))),
          segments = segs, style = default_style, visible = True, stats = Some st\<rparr>)"

definition track_of_route :: "nat \<Rightarrow> GPXRoute \<Rightarrow> nat \<Rightarrow> Track" where
  "track_of_route now route routeIndex =
     (let segs = fold (\<lambda>point segs. push_first (route_point point) segs)
                   (rte_points route) [\<lparr>points = []\<rparr>];
          st = calculateTrackStats segs
      in \<lparr>track_id = ''route-'' @ show_nat now @ ''-'' @ show_nat routeIndex,
          name = or_string (rte_name route) (''Route '' @ show_nat (routeIndex + 1)),
          segments = segs, style = default_style, visible = True, stats = Some st\<rparr>)"

definition track_of_waypoints :: "nat \<Rightarrow> string option \<Rightarrow> GPXWaypoint list \<Rightarrow> Track" where
  "track_of_waypoints now fileName wpts =
     (let segs = fold (\<lambda>waypoint segs. push_first (waypoint_point waypoint) segs)
                   wpts [\<lparr>points = []\<rparr>];
          st = calculateTrackStats segs
      in \<lparr>track_id = ''waypoints-'' @ show_nat now,
          name = or_string fileName ''Waypoints'',
          segments = segs, style = default_style, visible = True, stats = Some st\<rparr>)"

text \<open>\<^verbatim>\<open>gpx.tracks.forEach((gpxTrack, trackIndex) => ...)\<close> and the same for the routes, from
  index \<open>trackIndex\<close> on, pushing onto \<open>tracks\<close>.  \<open>Date_now k\<close> is what \<^verbatim>\<open>Date.now()\<close> reads
  when \<open>k\<close> tracks have been pushed; it is read once for each push.\<close>

fun tracks_forEach ::
  "(string \<Rightarrow> Date) \<Rightarrow> (nat \<Rightarrow> nat) \<Rightarrow> string option \<Rightarrow> GPXTrack list \<Rightarrow> nat \<Rightarrow>
     Track list \<Rightarrow> Track list" where
  "tracks_forEach new_Date Date_now fileName [] trackIndex tracks = tracks"
| "tracks_forEach new_Date Date_now fileName (gpxTrack # rest) trackIndex tracks =
     tracks_forEach new_Date Date_now fileName rest (trackIndex + 1)
       (tracks @ [track_of_gpxTrack new_Date (Date_now (length tracks)) fileName
                    gpxTrack trackIndex])"

fun routes_forEach ::
  "(nat \<Rightarrow> nat) \<Rightarrow> GPXRoute list \<Rightarrow> nat \<Rightarrow> Track list \<Rightarrow> Track list" where
  "routes_forEach Date_now [] routeIndex tracks = tracks"
| "routes_forEach Date_now (route # rest) routeIndex tracks =
     routes_forEach Date_now rest (routeIndex + 1)
       (tracks @ [track_of_route (Date_now (length tracks)) route routeIndex])"

text \<open>\<^verbatim>\<open>parseGPXString(gpxText, fileName)\<close>.  \<open>GPXParser\<close> is the parser library when it
  could be loaded: what its \<^verbatim>\<open>parse\<close> leaves in the parser instance for a text.\<close>

definition parseGPXString ::
  "(string \<Rightarrow> GPXParserInstance) option \<Rightarrow> (string \<Rightarrow> Date) \<Rightarrow> (nat \<Rightarrow> nat) \<Rightarrow>
     string \<Rightarrow> string option \<Rightarrow> error + Track list" where
  "parseGPXString GPXParser new_Date Date_now gpxText fileName =
     (case GPXParser of
        None \<Rightarrow> Inl GPXParserNotAvailable
      | Some parse \<Rightarrow>
          (let gpx = parse gpxText;
               tracks0 = [];
               tracks1 = (case gpx_tracks gpx of
                            Some ts \<Rightarrow>
                              if 0 < length ts
                              then tracks_forEach new_Date Date_now fileName ts 0 tracks0
                              else tracks0
                          | None \<Rightarrow> tracks0);
               tracks2 = (case gpx_routes gpx of
                            Some rs \<Rightarrow>
                              if 0 < length rs then routes_forEach Date_now rs 0 tracks1
                              else tracks1
                          | None \<Rightarrow> tracks1);
               tracks3 = (case gpx_waypoints gpx of
                            Some ws \<Rightarrow>
                              if 0 < length ws \<and> length tracks2 = 0
                              then tracks2 @ [track_of_waypoints (Date_now (length tracks2))
                                                fileName ws]
                              else tracks2
                          | None \<Rightarrow> tracks2)
           in if length tracks3 = 0 then Inl NoGeometryFound else Inr tracks3))"

text \<open>The names as the specification resolves them: the first candidate that is present
  (defined and not empty), else the fallback label.\<close>

fun resolve_name :: "string option list \<Rightarrow> string \<Rightarrow> string" where
  "resolve_name [] label = label"
| "resolve_name (None # cs) label = resolve_name cs label"
| "resolve_name (Some s # cs) label = (if s = [] then resolve_name cs label else s)"

text \<open>The list a field of the parser instance holds; an undefined field holds none.\<close>

definition list_of :: "'a list option \<Rightarrow> 'a list" where
  "list_of xs = (case xs of Some l \<Rightarrow> l | None \<Rightarrow> [])"

section \<open>Example documents\<close>

definition epoch :: "string \<Rightarrow> Date" where
  "epoch s = ValidDate 0"

definition stopped_clock :: "nat \<Rightarrow> nat" where
  "stopped_clock k = 0"



definition unnamed_route :: "string \<Rightarrow> GPXParserInstance" where
  "unnamed_route gpxText =
     \<lparr>gpx_tracks = None,
      gpx_routes = Some [\<lparr>rte_name = None, rte_points = []\<rparr>],
      gpx_waypoints = None\<rparr>"


definition no_geometry :: "string \<Rightarrow> GPXParserInstance" where
  "no_geometry gpxText = \<lparr>gpx_tracks = None, gpx_routes = Some [], gpx_waypoints = None\<rparr>"

definition track_and_route :: "string \<Rightarrow> GPXParserInstance" where
  "track_and_route gpxText =
     \<lparr>gpx_tracks = Some [\<lparr>trk_name = None, trk_points = []\<rparr>],
      gpx_routes = Some [\<lparr>rte_name = Some ''Loop'', rte_points = []\<rparr>],
      gpx_waypoints = None\<rparr>"

section \<open>The track collection (hooks/use-tracks.ts)\<close>

text \<open>A \<^verbatim>\<open>Partial<TrackStyle>\<close>: each field is set or left out.\<close>

record PartialTrackStyle =
  set_color :: "string option"
  set_width :: "real option"
  set_opacity :: "real option"
  set_lineStyle :: "LineStyle option"

text \<open>\<^verbatim>\<open>{ ...track.style, ...style }\<close>: the fields the partial style sets replace the track's.\<close>

definition merge_style :: "TrackStyle \<Rightarrow> PartialTrackStyle \<Rightarrow> TrackStyle" where
  "merge_style old new =
     \<lparr>color = (case set_color new of Some c \<Rightarrow> c | None \<Rightarrow> color old),
      width = (case set_width new of Some w \<Rightarrow> w | None \<Rightarrow> width old),
      opacity = (case set_opacity new of Some x \<Rightarrow> x | None \<Rightarrow> opacity old),
      lineStyle = (case set_lineStyle new of Some l \<Rightarrow> l | None \<Rightarrow> lineStyle old)\<rparr>"

text \<open>\<^verbatim>\<open>updateTrackStyle(trackId, style)\<close>, as the function it applies to the previous
  collection.\<close>

definition updateTrackStyle :: "string \<Rightarrow> PartialTrackStyle \<Rightarrow> Track list \<Rightarrow> Track list" where
  "updateTrackStyle trackId new prev =
     map (\<lambda>track. if track_id track = trackId
                  then track\<lparr>style := merge_style (style track) new\<rparr>
                  else track) prev"

definition track_a :: Track where
  "track_a = \<lparr>track_id = ''track-1-0'', name = ''Morning'', segments = [],
              style = default_style, visible = True, stats = None\<rparr>"

definition track_b :: Track where
  "track_b = \<lparr>track_id = ''track-2-0'', name = ''Evening'', segments = [],
              style = default_style, visible = False, stats = None\<rparr>"

definition dashed_blue :: PartialTrackStyle where
  "dashed_blue = \<lparr>set_color = Some ''#3182CE'', set_width = None, set_opacity = None,
                  set_lineStyle = Some dashed\<rparr>"

section \<open>Photos (types/photo.ts, lib/exif-parser.ts, hooks/use-photos.ts)\<close>

record File =
  file_name :: string
  file_size :: nat

record PhotoMetadata =
  location :: "(real \<times> real) option"
  timestamp :: "Date option"
  camera :: "string option"
  orientation :: "real option"

record Photo =
  photo_id :: string
  photo_name :: string
  dataUrl :: string
  thumbnailUrl :: "string option"
  photo_location :: "(real \<times> real) option"
  photo_timestamp :: "Date option"
  photo_visible :: bool
  photo_size :: nat

text \<open>The fields that \<^verbatim>\<open>extractPhotoMetadata\<close> reads from what the EXIF library returns.\<close>

record ExifData =
  latitude :: "real option"
  longitude :: "real option"
  DateTimeOriginal :: "string option"
  Make :: "string option"
  Model :: "string option"
  Orientation :: "real option"

text \<open>What the hook does not compute itself: the EXIF library (which may throw, or find
  nothing), the reading of the file into a data URL (which may fail), the rendering of
  the thumbnail (which may fail or give none), the \<^verbatim>\<open>Date\<close> constructor, and the clock and
  random suffix read when the photo number \<open>k\<close> is made.\<close>

record photo_env =
  exifr_parse :: "File \<Rightarrow> error + ExifData option"
  fileToDataUrl :: "File \<Rightarrow> error + string"
  createThumbnail :: "File \<Rightarrow> nat \<Rightarrow> error + string option"
  Date_of :: "string \<Rightarrow> Date"
  clock :: "nat \<Rightarrow> nat"
  random_suffix :: "nat \<Rightarrow> string"

text \<open>\<^verbatim>\<open>extractPhotoMetadata(file)\<close>: any error of the EXIF library is caught and gives the
  empty metadata.\<close>

definition extractPhotoMetadata :: "photo_env \<Rightarrow> File \<Rightarrow> PhotoMetadata" where
  "extractPhotoMetadata env file =
     (case exifr_parse env file of
        Inl e \<Rightarrow> \<lparr>location = None, timestamp = None, camera = None, orientation = None\<rparr>
      | Inr None \<Rightarrow> \<lparr>location = None, timestamp = None, camera = None, orientation = None\<rparr>
      | Inr (Some exifData) \<Rightarrow>
          \<lparr>location = (case (latitude exifData, longitude exifData) of
                         (Some la, Some lo) \<Rightarrow> Some (la, lo)
                       | _ \<Rightarrow> None),
           timestamp = (case DateTimeOriginal exifData of
                          Some s \<Rightarrow> if s = [] then None else Some (Date_of env s)
                        | None \<Rightarrow> None),
           camera = (case (Make exifData, Model exifData) of
                       (Some mk, Some md) \<Rightarrow>
                         if mk = [] \<or> md = [] then None else Some (mk @ '' '' @ md)
                     | _ \<Rightarrow> None),
           orientation = Orientation exifData\<rparr>)"

text \<open>The body of the inner \<^verbatim>\<open>try\<close> of \<^verbatim>\<open>addMultiplePhotos\<close> for one file, when \<open>k\<close> photos
  have been made: \<open>Inl\<close> is the error its \<^verbatim>\<open>catch\<close> logs.  A failing thumbnail is caught on
  its own and leaves the thumbnail undefined.\<close>

definition process_file :: "photo_env \<Rightarrow> nat \<Rightarrow> File \<Rightarrow> error + Photo" where
  "process_file env k file =
     (let metadata = extractPhotoMetadata env file
      in case fileToDataUrl env file of
           Inl e \<Rightarrow> Inl e
         | Inr url \<Rightarrow>
             (let thumb = (case createThumbnail env file 200 of
                             Inl e \<Rightarrow> None
                           | Inr t \<Rightarrow> t)
              in Inr \<lparr>photo_id = ''photo-'' @ show_nat (clock env k) @ ''-'' @ random_suffix env k,
                      photo_name = file_name file,
                      dataUrl = url,
                      thumbnailUrl = (case thumb of
                                        Some u \<Rightarrow> if u = [] then None else Some u
                                      | None \<Rightarrow> None),
                      photo_location = location metadata,
                      photo_timestamp = timestamp metadata,
                      photo_visible = True,
                      photo_size = file_size file\<rparr>))"

text \<open>\<^verbatim>\<open>for (const file of files)\<close>: a file whose processing throws is logged and skipped.\<close>

fun photos_loop :: "photo_env \<Rightarrow> File list \<Rightarrow> Photo list \<Rightarrow> Photo list" where
  "photos_loop env [] processedPhotos = processedPhotos"
| "photos_loop env (file # files) processedPhotos =
     (case process_file env (length processedPhotos) file of
        Inl e \<Rightarrow> photos_loop env files processedPhotos
      | Inr newPhoto \<Rightarrow> photos_loop env files (processedPhotos @ [newPhoto]))"

text \<open>The state of the hook, and \<^verbatim>\<open>addMultiplePhotos(files)\<close>: the photos it returns and the
  state it leaves.\<close>

record photos_state =
  photos :: "Photo list"
  isProcessing :: bool

definition addMultiplePhotos ::
  "photo_env \<Rightarrow> File list \<Rightarrow> photos_state \<Rightarrow> Photo list \<times> photos_state" where
  "addMultiplePhotos env files st =
     (let processedPhotos = photos_loop env files [];
          shown = (if 0 < length processedPhotos then photos st @ processedPhotos
                   else photos st)
      in (processedPhotos, \<lparr>photos = shown, isProcessing = False\<rparr>))"

section \<open>Validation of uploaded photos (components/PhotoUploader.tsx)\<close>

text \<open>\<^verbatim>\<open>s.split(sep)\<close> for a one-character separator: never an empty list.\<close>

fun split_on :: "char \<Rightarrow> string \<Rightarrow> string list" where
  "split_on sep [] = [[]]"
| "split_on sep (c # cs) =
     (if c = sep then [] # split_on sep cs
      else (case split_on sep cs of
              w # ws \<Rightarrow> (c # w) # ws
            | [] \<Rightarrow> [[c]]))"

text \<open>\<^verbatim>\<open>toLowerCase\<close> on the letters A to Z; other characters are kept.\<close>

definition toLowerCase :: "string \<Rightarrow> string" where
  "toLowerCase s =
     map (\<lambda>c. case map_of (zip ''ABCDEFGHIJKLMNOPQRSTUVWXYZ'' ''abcdefghijklmnopqrstuvwxyz'') c of
                 Some l \<Rightarrow> l
               | None \<Rightarrow> c) s"

text \<open>\<^verbatim>\<open>xs.join(sep)\<close>.\<close>

fun join :: "string \<Rightarrow> string list \<Rightarrow> string" where
  "join sep [] = []"
| "join sep [x] = x"
| "join sep (x # y # ys) = x @ sep @ join sep (y # ys)"

definition fileExtension :: "string \<Rightarrow> string" where
  "fileExtension fname = ''.'' @ toLowerCase (last (split_on CHR ''.'' fname))"

definition acceptedFormats_default :: "string list" where
  "acceptedFormats_default = [''.jpg'', ''.jpeg'', ''.png'', ''.heic'', ''.webp'']"

record Toast =
  title :: string
  description :: string
  variant :: string

text \<open>\<^verbatim>\<open>validateFiles(files)\<close>: the valid files, and the toasts shown on the way.\<close>

fun validate_loop :: "string list \<Rightarrow> File list \<Rightarrow> File list \<times> Toast list \<Rightarrow> File list \<times> Toast list" where
  "validate_loop acceptedFormats [] (validFiles, toasts) = (validFiles, toasts)"
| "validate_loop acceptedFormats (file # files) (validFiles, toasts) =
     (if fileExtension (file_name file) \<notin> set acceptedFormats then
        validate_loop acceptedFormats files
          (validFiles,
           toasts @ [\<lparr>title = ''Invalid file format'',
                       description = file_name file @
                         '' is not a supported image format. Accepted formats: '' @
                         join '', '' acceptedFormats,
                       variant = ''destructive''\<rparr>])
      else if 50 * 1024 * 1024 < file_size file then
        validate_loop acceptedFormats files
          (validFiles,
           toasts @ [\<lparr>title = ''File too large'',
                       description = file_name file @ '' exceeds the 50MB size limit'',
                       variant = ''destructive''\<rparr>])
      else validate_loop acceptedFormats files (validFiles @ [file], toasts))"

definition validateFiles :: "string list \<Rightarrow> File list \<Rightarrow> File list \<times> Toast list" where
  "validateFiles acceptedFormats files = validate_loop acceptedFormats files ([], [])"

text \<open>\<^verbatim>\<open>handleFiles(files)\<close>.  \<open>onPhotosUpload\<close> is the component's property of that name; it
  returns the state it leaves, or the error it throws.  The result is the toasts shown and
  the state left.\<close>

definition handleFiles ::
  "string list \<Rightarrow> (File list \<Rightarrow> photos_state \<Rightarrow> error + photos_state) \<Rightarrow> File list \<Rightarrow>
     photos_state \<Rightarrow> Toast list \<times> photos_state" where
  "handleFiles acceptedFormats onPhotosUpload files st =
     (case validateFiles acceptedFormats files of
        (validFiles, toasts) \<Rightarrow>
          if length validFiles = 0 then (toasts, st)
          else (case onPhotosUpload validFiles st of
                  Inr st' \<Rightarrow>
                    (toasts @ [\<lparr>title = ''Photos uploaded successfully'',
                                 description = show_nat (length validFiles) @ '' photo'' @
                                   (if 1 < length validFiles then ''s'' else '''') @
                                   '' processed.'',
                                 variant = ''''\<rparr>], st')
                | Inl (Error message) \<Rightarrow>
                    (toasts @ [\<lparr>title = ''Upload failed'', description = message,
                                 variant = ''destructive''\<rparr>], st)))"

text \<open>The predicates of the claims: a file passes the validation; its processing succeeds.\<close>

definition passes_validation :: "string list \<Rightarrow> File \<Rightarrow> bool" where
  "passes_validation acceptedFormats file =
     (fileExtension (file_name file) \<in> set acceptedFormats \<and>
      file_size file \<le> 50 * 1024 * 1024)"

definition processing_succeeds :: "photo_env \<Rightarrow> File \<Rightarrow> bool" where
  "processing_succeeds env file = (case fileToDataUrl env file of Inr url \<Rightarrow> True | Inl e \<Rightarrow> False)"

section \<open>Example uploads\<close>

definition file_1 :: File where
  "file_1 = \<lparr>file_name = ''alps.JPG'', file_size = 2000000\<rparr>"

definition file_2 :: File where
  "file_2 = \<lparr>file_name = ''notes.txt'', file_size = 1200\<rparr>"

definition file_3 :: File where
  "file_3 = \<lparr>file_name = ''lake.v2.png'', file_size = 52428800\<rparr>"

text \<open>An environment in which every file can be read, the EXIF library throws and no
  thumbnail can be rendered.\<close>

definition bare_env :: photo_env where
  "bare_env =
     \<lparr>exifr_parse = (\<lambda>file. Inl (Error ''Unknown file format'')),
      fileToDataUrl = (\<lambda>file. Inr (''data:'' @ file_name file)),
      createThumbnail = (\<lambda>file maxSize. Inl (Error ''no canvas'')),
      Date_of = epoch, clock = stopped_clock, random_suffix = (\<lambda>k. ''x'')\<rparr>"

definition no_photos :: photos_state where
  "no_photos = \<lparr>photos = [], isProcessing = False\<rparr>"

section \<open>The geodesic distance\<close>

lemma haversine_a_sym: "haversine_a lat2 lon2 lat1 lon1 = haversine_a lat1 lon1 lat2 lon2"
proof -
  have s: "sin (- x) * sin (- x) = sin x * sin x" for x :: real by simp
  have 1: "(lat1 - lat2) * pi / 180 / 2 = - ((lat2 - lat1) * pi / 180 / 2)" by (simp add: field_simps)
  have 2: "(lon1 - lon2) * pi / 180 / 2 = - ((lon2 - lon1) * pi / 180 / 2)" by (simp add: field_simps)
  show ?thesis unfolding haversine_a_def Let_def 1 2
    by (simp only: mult.assoc s) (simp add: mult.commute mult.left_commute)
qed

lemma sin_half_sq: "sin (x / 2) * sin (x / 2) = (1 - cos x) / 2" for x :: real
proof -
  have "cos x = cos (2 * (x / 2))" by simp
  also have "\<dots> = 1 - 2 * (sin (x / 2))\<^sup>2" by (rule cos_double_sin)
  finally show ?thesis by (simp add: power2_eq_square)
qed

lemma cos_prod: "cos x * cos y = (cos (y - x) + cos (x + y)) / 2" for x y :: real
  by (simp add: cos_add cos_diff)

text \<open>In exact arithmetic the haversine term lies between 0 and 1, where the real
  square root is what \<^verbatim>\<open>Math.sqrt\<close> computes.  On doubles the term can round just above 1
  for nearly antipodal points, and the program then returns a distance that is not a
  number; rounding is outside this model, and no statement below bounds a distance from
  below.\<close>

lemma haversine_a_range: "0 \<le> haversine_a lat1 lon1 lat2 lon2 \<and> haversine_a lat1 lon1 lat2 lon2 \<le> 1"
proof -
  define p1 where "p1 = lat1 * pi / 180"
  define p2 where "p2 = lat2 * pi / 180"
  define d where "d = (lat2 - lat1) * pi / 180"
  define s where "s = sin ((lon2 - lon1) * pi / 180 / 2) * sin ((lon2 - lon1) * pi / 180 / 2)"
  have d: "d = p2 - p1" by (simp add: d_def p1_def p2_def field_simps)
  have a: "haversine_a lat1 lon1 lat2 lon2 = (1 - cos d) / 2 + (cos p1 * cos p2) * s"
    unfolding haversine_a_def Let_def s_def p1_def p2_def d_def sin_half_sq[symmetric]
    by (simp add: mult.assoc)
  define t where "t = cos p1 * cos p2 * s"
  have s0: "0 \<le> s" unfolding s_def by simp
  have s1: "s \<le> 1"
  proof -
    have "s = (sin ((lon2 - lon1) * pi / 180 / 2))\<^sup>2" by (simp add: s_def power2_eq_square)
    also have "\<dots> \<le> 1" using abs_sin_le_one[of "(lon2 - lon1) * pi / 180 / 2"]
      by (simp add: abs_square_le_1)
    finally show ?thesis .
  qed
  have cp: "cos p1 * cos p2 = (cos d + cos (p1 + p2)) / 2" unfolding d by (rule cos_prod)
  have lo: "(cos d - 1) / 2 \<le> cos p1 * cos p2" unfolding cp using cos_ge_minus_one[of "p1 + p2"] by simp
  have hi: "cos p1 * cos p2 \<le> (cos d + 1) / 2" unfolding cp using cos_le_one[of "p1 + p2"] by simp
  have c1: "cos d \<le> 1" by simp
  have cm: "0 \<le> (cos d + 1) / 2" using cos_ge_minus_one[of d] by argo
  have "(cos d - 1) / 2 = (cos d - 1) / 2 * 1" by simp
  also have "\<dots> \<le> (cos d - 1) / 2 * s" using s1 c1 by (intro mult_left_mono_neg) auto
  also have "\<dots> \<le> cos p1 * cos p2 * s" using lo s0 by (rule mult_right_mono)
  finally have "(cos d - 1) / 2 \<le> t" by (simp add: t_def)
  then have ge: "0 \<le> (1 - cos d) / 2 + t" by (simp add: field_simps)
  have "cos p1 * cos p2 * s \<le> (cos d + 1) / 2 * s" using hi s0 by (rule mult_right_mono)
  also have "\<dots> \<le> (cos d + 1) / 2 * 1" using s1 cm by (intro mult_left_mono) auto
  also have "\<dots> = (cos d + 1) / 2" by simp
  finally have "t \<le> (cos d + 1) / 2" by (simp add: t_def)
  then have le: "(1 - cos d) / 2 + t \<le> 1" by (simp add: field_simps)
  show ?thesis using ge le a by (simp add: t_def)
qed

lemma calculateDistance_same: "calculateDistance la lo la lo = 0"
  by (simp add: calculateDistance_def haversine_a_def Math_atan2_def)

section \<open>The loops of the statistics\<close>

lemma points_loop_step: "i < length ps \<Longrightarrow> points_loop ps i v = points_loop ps (Suc i) (point_step ps i v)"
  by (subst points_loop.simps) simp

lemma points_loop_done: "length ps \<le> i \<Longrightarrow> points_loop ps i v = v"
  by (subst points_loop.simps) simp

lemma totalDistance_step:
  "totalDistance (point_step ps i v) =
     totalDistance v + (if 0 < i then point_distance (ps ! (i - 1)) (ps ! i) else 0)"
  by (simp add: point_step_def Let_def point_distance_def split: option.splits)

lemma elevationGain_step:
  "elevationGain_v (point_step ps i v) =
     elevationGain_v v + (if 0 < i then pair_gain (ps ! (i - 1)) (ps ! i) else 0)"
  by (simp add: point_step_def Let_def pair_gain_def split: option.splits)

lemma elevationLoss_step:
  "elevationLoss_v (point_step ps i v) =
     elevationLoss_v v + (if 0 < i then pair_loss (ps ! (i - 1)) (ps ! i) else 0)"
  by (simp add: point_step_def Let_def pair_loss_def split: option.splits)

lemma minElevation_step:
  "minElevation_v (point_step ps i v) =
     (case ele (ps ! i) of Some e \<Rightarrow> Math_min (minElevation_v v) e | None \<Rightarrow> minElevation_v v)"
  by (simp add: point_step_def Let_def split: option.splits)

lemma maxElevation_step:
  "maxElevation_v (point_step ps i v) =
     (case ele (ps ! i) of Some e \<Rightarrow> Math_max (maxElevation_v v) e | None \<Rightarrow> maxElevation_v v)"
  by (simp add: point_step_def Let_def split: option.splits)

lemma startTime_step:
  "startTime (point_step ps i v) =
     (case time (ps ! i) of
        Some t \<Rightarrow> (case startTime v of None \<Rightarrow> Some t | Some s \<Rightarrow> if date_less t s then Some t else Some s)
      | None \<Rightarrow> startTime v)"
  by (simp add: point_step_def Let_def split: option.splits)


lemma points_loop_accumulates:
  fixes F :: "stats_vars \<Rightarrow> real"
  assumes step: "\<And>i v. F (point_step ps i v) = F v + (if 0 < i then g (ps ! (i - 1)) (ps ! i) else 0)"
  shows "F (points_loop ps i v) = F v + (\<Sum>j = i..<length ps. if 0 < j then g (ps ! (j - 1)) (ps ! j) else 0)"
proof (induction "length ps - i" arbitrary: i v)
  case 0
  then show ?case by (simp add: points_loop_done)
next
  case (Suc n)
  then have lt: "i < length ps" and n: "n = length ps - (i + 1)" by simp_all
  have "F (points_loop ps i v) = F (points_loop ps (i + 1) (point_step ps i v))"
    using lt by (simp add: points_loop_step)
  also have "\<dots> = F (point_step ps i v) +
      (\<Sum>j = i + 1..<length ps. if 0 < j then g (ps ! (j - 1)) (ps ! j) else 0)"
    by (rule Suc.hyps(1) [OF n])
  also have "F (point_step ps i v) = F v + (if 0 < i then g (ps ! (i - 1)) (ps ! i) else 0)"
    by (rule step)
  finally show ?case
    using lt by (simp add: sum.atLeast_Suc_lessThan)
qed

lemma points_loop_invariant:
  assumes step: "\<And>i v. i < length ps \<Longrightarrow> I v \<Longrightarrow> I (point_step ps i v)"
    and init: "I v"
  shows "I (points_loop ps i v)"
  using init
proof (induction "length ps - i" arbitrary: i v)
  case 0
  then show ?case by (simp add: points_loop_done)
next
  case (Suc n)
  then have lt: "i < length ps" and n: "n = length ps - (i + 1)" by simp_all
  have "I (point_step ps i v)" using lt Suc.prems by (rule step)
  then have "I (points_loop ps (i + 1) (point_step ps i v))" by (rule Suc.hyps(1) [OF n])
  then show ?case using lt by (simp add: points_loop_step)
qed

lemma fold_invariant:
  assumes step: "\<And>ps i v. \<lparr>points = ps\<rparr> \<in> set segs \<Longrightarrow> i < length ps \<Longrightarrow> I v \<Longrightarrow> I (point_step ps i v)"
    and init: "I v"
  shows "I (fold (\<lambda>segment v. points_loop (points segment) 0 v) segs v)"
  using assms
proof (induction segs arbitrary: v)
  case Nil
  then show ?case by simp
next
  case (Cons s segs)
  have s: "\<lparr>points = points s\<rparr> = s" by simp
  have "I (points_loop (points s) 0 v)"
    by (rule points_loop_invariant [where I = I]) (use Cons.prems s in auto)
  then show ?case using Cons by simp
qed

lemma adjacent_Cons2: "adjacent (x # y # zs) = (x, y) # adjacent (y # zs)"
  by (simp add: adjacent_def)

lemma sum_adjacent:
  "(\<Sum>j = 0..<length ps. if 0 < j then g (ps ! (j - 1)) (ps ! j) else (0::real)) = sum_list (map (\<lambda>(p, q). g p q) (adjacent ps))"
proof (induction ps rule: induct_list012)
  case 1
  show ?case by (simp add: adjacent_def)
next
  case (2 x)
  show ?case by (simp add: adjacent_def)
next
  case (3 x y zs)
  have "(\<Sum>j = 0..<length (x # y # zs). if 0 < j then g ((x # y # zs) ! (j - 1)) ((x # y # zs) ! j) else 0)
      = (\<Sum>j = 0..<length (y # zs). g ((x # y # zs) ! j) ((y # zs) ! j))"
    by (simp add: sum.atLeast0_lessThan_Suc_shift del: sum.op_ivl_Suc)
  also have "\<dots> = g x y + (\<Sum>j = 0..<length zs. g ((y # zs) ! j) (zs ! j))"
    by (simp add: sum.atLeast0_lessThan_Suc_shift del: sum.op_ivl_Suc)
  also have "(\<Sum>j = 0..<length zs. g ((y # zs) ! j) (zs ! j))
      = (\<Sum>j = 0..<length (y # zs). if 0 < j then g ((y # zs) ! (j - 1)) ((y # zs) ! j) else 0)"
    by (simp add: sum.atLeast0_lessThan_Suc_shift del: sum.op_ivl_Suc)
  finally show ?case using "3.IH"(2) by (simp add: adjacent_Cons2)
qed

lemma points_loop_over_pairs:
  fixes F :: "stats_vars \<Rightarrow> real"
  assumes "\<And>i v. F (point_step ps i v) = F v + (if 0 < i then g (ps ! (i - 1)) (ps ! i) else 0)"
  shows "F (points_loop ps 0 v) = F v + over_pairs g ps"
  unfolding over_pairs_def sum_adjacent [symmetric]
  by (rule points_loop_accumulates) (rule assms)

lemma fold_over_pairs:
  fixes F :: "stats_vars \<Rightarrow> real"
  assumes "\<And>ps i v. F (point_step ps i v) = F v + (if 0 < i then g (ps ! (i - 1)) (ps ! i) else 0)"
  shows "F (fold (\<lambda>segment v. points_loop (points segment) 0 v) segs v) =
           F v + sum_list (map (\<lambda>segment. over_pairs g (points segment)) segs)"
proof (induction segs arbitrary: v)
  case Nil
  show ?case by simp
next
  case (Cons s segs)
  show ?case
    by (simp add: Cons.IH points_loop_over_pairs [of F _ g, OF assms])
qed

section \<open>The statistics returned\<close>

lemma distance_calculateTrackStats:
  "distance (calculateTrackStats segs) = sum_list (map segment_distance segs)"
  using fold_over_pairs [of totalDistance point_distance segs initial_vars, OF totalDistance_step]
  by (simp add: calculateTrackStats_def Let_def initial_vars_def segment_distance_def [abs_def])

lemma elevationGain_calculateTrackStats:
  "elevationGain (calculateTrackStats segs) = sum_list (map segment_gain segs)"
  using fold_over_pairs [of elevationGain_v pair_gain segs initial_vars, OF elevationGain_step]
  by (simp add: calculateTrackStats_def Let_def initial_vars_def segment_gain_def [abs_def])

lemma elevationLoss_calculateTrackStats:
  "elevationLoss (calculateTrackStats segs) = sum_list (map segment_loss segs)"
  using fold_over_pairs [of elevationLoss_v pair_loss segs initial_vars, OF elevationLoss_step]
  by (simp add: calculateTrackStats_def Let_def initial_vars_def segment_loss_def [abs_def])


lemma over_pairs_zero:
  "(\<And>p q. (p, q) \<in> set (adjacent ps) \<Longrightarrow> g p q = 0) \<Longrightarrow> over_pairs g ps = 0"
proof -
  assume z: "\<And>p q. (p, q) \<in> set (adjacent ps) \<Longrightarrow> g p q = 0"
  have "map (\<lambda>(p, q). g p q) (adjacent ps) = map (\<lambda>_. 0) (adjacent ps)"
    by (rule map_cong) (auto simp: z)
  then show ?thesis by (simp only: over_pairs_def sum_list_0)
qed

lemma sum_list_all_zero:
  fixes f :: "'a \<Rightarrow> real"
  shows "(\<And>x. x \<in> set xs \<Longrightarrow> f x = 0) \<Longrightarrow> sum_list (map f xs) = 0"
  by (induction xs) simp_all

lemma adjacent_short: "length xs < 2 \<Longrightarrow> adjacent xs = []"
  by (cases xs) (auto simp: adjacent_def)

lemma adjacent_left: "(p, q) \<in> set (adjacent xs) \<Longrightarrow> p \<in> set xs"
  by (auto simp: adjacent_def dest: set_zip_leftD)



lemma pair_gain_no_ele: "ele p = None \<Longrightarrow> pair_gain p q = 0"
  by (simp add: pair_gain_def)

lemma pair_loss_no_ele: "ele p = None \<Longrightarrow> pair_loss p q = 0"
  by (simp add: pair_loss_def)










lemma no_ele_fold:
  assumes "\<forall>segment \<in> set (segs :: TrackSegment list). \<forall>p \<in> set (points segment). ele p = None"
  shows "minElevation_v (fold (\<lambda>segment v. points_loop (points segment) 0 v) segs initial_vars) = Infinity \<and>
         maxElevation_v (fold (\<lambda>segment v. points_loop (points segment) 0 v) segs initial_vars) = NegInfinity"
proof (rule fold_invariant [where I = "\<lambda>v. minElevation_v v = Infinity \<and> maxElevation_v v = NegInfinity"])
  fix ps i and v :: stats_vars
  assume "\<lparr>points = ps\<rparr> \<in> set segs" "i < length ps"
    and v: "minElevation_v v = Infinity \<and> maxElevation_v v = NegInfinity"
  then have "ele (ps ! i) = None" using assms by force
  then show "minElevation_v (point_step ps i v) = Infinity \<and> maxElevation_v (point_step ps i v) = NegInfinity"
    using v by (simp add: minElevation_step maxElevation_step)
next
  show "minElevation_v initial_vars = Infinity \<and> maxElevation_v initial_vars = NegInfinity"
    by (simp add: initial_vars_def)
qed

lemma no_time_fold:
  assumes "\<forall>segment \<in> set (segs :: TrackSegment list). \<forall>p \<in> set (points segment). time p = None"
  shows "startTime (fold (\<lambda>segment v. points_loop (points segment) 0 v) segs initial_vars) = None"
proof (rule fold_invariant [where I = "\<lambda>v. startTime v = None"])
  fix ps i and v :: stats_vars
  assume "\<lparr>points = ps\<rparr> \<in> set segs" "i < length ps" and v: "startTime v = None"
  then have "time (ps ! i) = None" using assms by force
  then show "startTime (point_step ps i v) = None"
    using v by (simp add: startTime_step)
next
  show "startTime initial_vars = None" by (simp add: initial_vars_def)
qed

section \<open>Evaluation on concrete tracks\<close>

lemma calculateDistance_one_degree: "calculateDistance 0 0 0 1 = 6371000 * pi / 180"
proof -
  define x where "x = pi / 360"
  have x0: "0 < x" and x1: "x < pi / 2" using pi_gt_zero by (simp_all add: x_def)
  have sx: "0 < sin x" using x0 x1 pi_gt_zero by (intro sin_gt_zero) linarith+
  have cx: "0 < cos x" using x0 x1 by (intro cos_gt_zero) 
  have a: "haversine_a 0 0 0 1 = sin x * sin x"
    by (simp add: haversine_a_def x_def)
  have "1 - sin x * sin x = cos x * cos x"
    using sin_cos_squared_add [of x] by (simp add: power2_eq_square algebra_simps)
  then have r: "sqrt (1 - haversine_a 0 0 0 1) = cos x" using cx by (simp add: a)
  have q: "sqrt (haversine_a 0 0 0 1) = sin x" using sx by (simp add: a)
  have "Math_atan2 (sin x) (cos x) = arctan (tan x)"
    using cx by (simp add: Math_atan2_def tan_def)
  also have "\<dots> = x" using x0 x1 by (intro arctan_tan) linarith+
  finally have "Math_atan2 (sin x) (cos x) = x" .
  then show ?thesis
    by (simp add: calculateDistance_def Let_def q r) (simp add: x_def)
qed

lemmas stats_eval =
  calculateTrackStats_def points_loop_step points_loop_done point_step_def
  initial_vars_def Let_def calculateDistance_same

section \<open>The normalizer\<close>

lemma show_nat_digit: "n < 10 \<Longrightarrow> show_nat n = [digit n]"
  by (subst show_nat.simps) simp

lemma show_nat_0: "show_nat 0 = ''0''"
  by (simp add: show_nat_digit digit_def)

lemma show_nat_1: "show_nat (Suc 0) = ''1''"
  by (simp add: show_nat_digit digit_def)





text \<open>The three steps of the normalizer, on the lists the document holds.\<close>

lemma parseGPXString_steps:
  "parseGPXString (Some parse) new_Date Date_now gpxText fileName =
     (let ts = list_of (gpx_tracks (parse gpxText));
          rs = list_of (gpx_routes (parse gpxText));
          ws = list_of (gpx_waypoints (parse gpxText));
          tracks2 = routes_forEach Date_now rs 0 (tracks_forEach new_Date Date_now fileName ts 0 [])
      in if tracks2 \<noteq> [] then Inr tracks2
         else if ws \<noteq> [] then Inr [track_of_waypoints (Date_now 0) fileName ws]
         else Inl NoGeometryFound)"
  by (auto simp: parseGPXString_def Let_def list_of_def split: option.splits)

lemmas gpx_eval =
  parseGPXString_def Let_def track_of_route_def track_of_gpxTrack_def track_of_waypoints_def
  push_first_def push_last_def route_point_def waypoint_point_def track_point_def
  or_string_def show_nat_0 show_nat_1 stopped_clock_def epoch_def list_of_def

lemma empty_stats: "calculateTrackStats [\<lparr>points = []\<rparr>] =
   \<lparr>distance = 0, elevationGain = 0, elevationLoss = 0,
    minElevation = Finite 0, maxElevation = Finite 0, duration = None\<rparr>"
  by (simp add: stats_eval)


section \<open>Validation and processing of uploaded photos\<close>

lemma fst_validate_loop:
  "fst (validate_loop fmts files (valid, toasts)) = valid @ filter (passes_validation fmts) files"
  by (induction files arbitrary: valid toasts) (auto simp: passes_validation_def)

lemma length_toasts_validate_loop:
  "length (snd (validate_loop fmts files (valid, toasts))) =
     length toasts + length (filter (\<lambda>f. \<not> passes_validation fmts f) files)"
  by (induction files arbitrary: valid toasts) (auto simp: passes_validation_def)

lemma fst_validateFiles: "fst (validateFiles fmts files) = filter (passes_validation fmts) files"
  by (simp add: validateFiles_def fst_validate_loop)

lemma length_snd_validateFiles:
  "length (snd (validateFiles fmts files)) = length (filter (\<lambda>f. \<not> passes_validation fmts f) files)"
  by (simp add: validateFiles_def length_toasts_validate_loop)

lemma process_file_Inr_iff:
  "(\<exists>p. process_file env k file = Inr p) = processing_succeeds env file"
  by (simp add: process_file_def processing_succeeds_def Let_def split: sum.splits)

lemma process_file_name:
  "process_file env k file = Inr p \<Longrightarrow> photo_name p = file_name file \<and> photo_size p = file_size file"
  by (auto simp: process_file_def Let_def split: sum.splits)

lemma photos_loop_names:
  "map photo_name (photos_loop env files acc) =
     map photo_name acc @ map file_name (filter (processing_succeeds env) files)"
proof (induction files arbitrary: acc)
  case Nil
  show ?case by simp
next
  case (Cons f files)
  show ?case
  proof (cases "process_file env (length acc) f")
    case (Inl e)
    then have "\<not> processing_succeeds env f"
      using process_file_Inr_iff [of env "length acc" f] by simp
    then show ?thesis using Inl by (simp add: Cons.IH)
  next
    case (Inr p)
    then have "processing_succeeds env f"
      using process_file_Inr_iff [of env "length acc" f] by auto
    then show ?thesis using Inr process_file_name [OF Inr] by (simp add: Cons.IH)
  qed
qed

lemma fst_addMultiplePhotos: "fst (addMultiplePhotos env files st) = photos_loop env files []"
  by (simp add: addMultiplePhotos_def Let_def)

lemma photos_addMultiplePhotos:
  "photos (snd (addMultiplePhotos env files st)) = photos st @ photos_loop env files []"
  by (simp add: addMultiplePhotos_def Let_def)

lemma photos_handleFiles:
  "photos (snd (handleFiles fmts (\<lambda>fs s. Inr (snd (addMultiplePhotos env fs s))) files st)) =
     photos st @ photos_loop env (fst (validateFiles fmts files)) []"
  by (cases "validateFiles fmts files")
    (auto simp: handleFiles_def photos_addMultiplePhotos)

lemma titles_validate_loop:
  "map title (snd (validate_loop fmts files (valid, toasts))) =
     map title toasts @
     map (\<lambda>f. if fileExtension (file_name f) \<notin> set fmts then ''Invalid file format''
               else ''File too large'')
       (filter (\<lambda>f. \<not> passes_validation fmts f) files)"
  by (induction files arbitrary: valid toasts) (auto simp: passes_validation_def)

lemma fileExtension_file_1: "fileExtension (file_name file_1) = ''.jpg''"
  by (simp add: fileExtension_def file_1_def toLowerCase_def)

lemma fileExtension_file_2: "fileExtension (file_name file_2) = ''.txt''"
  by (simp add: fileExtension_def file_2_def toLowerCase_def)

lemma fileExtension_file_3: "fileExtension (file_name file_3) = ''.png''"
  by (simp add: fileExtension_def file_3_def toLowerCase_def)

section \<open>Claims about the geodesic distance and the track statistics\<close>

text \<open>
  Claim C7.  The geodesic distance is symmetric: for all coordinate pairs
  \<open>A = (lat1, lon1)\<close> and \<open>B = (lat2, lon2)\<close>, the distance from \<open>A\<close> to \<open>B\<close> equals the
  distance from \<open>B\<close> to \<open>A\<close>.
\<close>

theorem calculateDistance_symmetric:
  "calculateDistance lat1 lon1 lat2 lon2 = calculateDistance lat2 lon2 lat1 lon1"
proof -
  have "haversine_a lat1 lon1 lat2 lon2 = haversine_a lat2 lon2 lat1 lon1"
    by (rule haversine_a_sym [symmetric])
  then show ?thesis
    by (simp only: calculateDistance_def)
qed

text \<open>
  Claim C6.  The total distance is the sum, over each segment on its own, of the haversine
  distances between consecutive points of that segment.  Nothing is added between the last
  point of one segment and the first point of the next: the distance of two segment lists
  put one after the other is the sum of their distances.
\<close>

theorem distance_within_segments:
  "distance (calculateTrackStats segs) = (\<Sum>segment\<leftarrow>segs. segment_distance segment) \<and>
   distance (calculateTrackStats (segs @ segs')) =
     distance (calculateTrackStats segs) + distance (calculateTrackStats segs')"
proof
  show "distance (calculateTrackStats segs) = (\<Sum>segment\<leftarrow>segs. segment_distance segment)"
    by (rule distance_calculateTrackStats)
  have "distance (calculateTrackStats (segs @ segs')) =
      (\<Sum>segment\<leftarrow>segs @ segs'. segment_distance segment)"
    by (rule distance_calculateTrackStats)
  also have "\<dots> = (\<Sum>segment\<leftarrow>segs. segment_distance segment) +
      (\<Sum>segment\<leftarrow>segs'. segment_distance segment)"
    by simp
  finally show "distance (calculateTrackStats (segs @ segs')) =
      distance (calculateTrackStats segs) + distance (calculateTrackStats segs')"
    by (simp only: distance_calculateTrackStats)
qed

text \<open>
  Claim C2.  Elevation gain and loss are accumulated over the adjacent pairs of points
  within a segment where both points carry an elevation: a strictly positive delta
  (current minus previous) adds to the gain, the absolute value of a negative or zero
  delta adds to the loss.  A single segment with elevations 100, 150, 120 has gain 50 and
  loss 30, whatever its coordinates and times.
\<close>

theorem elevation_gain_loss_over_pairs:
  "elevationGain (calculateTrackStats segs) = (\<Sum>segment\<leftarrow>segs. segment_gain segment) \<and>
   elevationLoss (calculateTrackStats segs) = (\<Sum>segment\<leftarrow>segs. segment_loss segment) \<and>
   elevationGain (calculateTrackStats
     [\<lparr>points = [\<lparr>lat = la1, lon = lo1, ele = Some 100, time = t1\<rparr>,
                 \<lparr>lat = la2, lon = lo2, ele = Some 150, time = t2\<rparr>,
                 \<lparr>lat = la3, lon = lo3, ele = Some 120, time = t3\<rparr>]\<rparr>]) = 50 \<and>
   elevationLoss (calculateTrackStats
     [\<lparr>points = [\<lparr>lat = la1, lon = lo1, ele = Some 100, time = t1\<rparr>,
                 \<lparr>lat = la2, lon = lo2, ele = Some 150, time = t2\<rparr>,
                 \<lparr>lat = la3, lon = lo3, ele = Some 120, time = t3\<rparr>]\<rparr>]) = 30"
proof (intro conjI)
  show "elevationGain (calculateTrackStats segs) = (\<Sum>segment\<leftarrow>segs. segment_gain segment)"
    by (rule elevationGain_calculateTrackStats)
  show "elevationLoss (calculateTrackStats segs) = (\<Sum>segment\<leftarrow>segs. segment_loss segment)"
    by (rule elevationLoss_calculateTrackStats)
qed (simp_all add: elevationGain_calculateTrackStats elevationLoss_calculateTrackStats
      segment_gain_def segment_loss_def over_pairs_def adjacent_def pair_gain_def pair_loss_def)




text \<open>
  Claim C1 as written does not hold, for two reasons.  A single point that carries an
  elevation of 100 and a time is a track with fewer than 2 points, and its minimum and
  maximum elevation are 100 and its duration is 0 seconds, not 0 and undefined.  Two
  points one degree of longitude apart that carry no elevation and no time give a
  distance of one degree of arc, not 0.
\<close>

theorem few_points_or_no_data_counterexample:
  "map (length \<circ> points) one_point_with_data = [1] \<and>
   minElevation (calculateTrackStats one_point_with_data) = Finite 100 \<and>
   maxElevation (calculateTrackStats one_point_with_data) = Finite 100 \<and>
   duration (calculateTrackStats one_point_with_data) = Some (Num 0) \<and>
   map (map ele \<circ> points) two_bare_points = [[None, None]] \<and>
   map (map time \<circ> points) two_bare_points = [[None, None]] \<and>
   distance (calculateTrackStats two_bare_points) = 6371000 * pi / 180 \<and>
   distance (calculateTrackStats two_bare_points) \<noteq> 0"
  by (simp add: one_point_with_data_def two_bare_points_def stats_eval
      calculateDistance_one_degree)

text \<open>
  Claim C1, as amended: the same list of defaults, each under the condition that causes
  it.  If every segment has fewer than 2 points, the distance, the elevation gain and the
  elevation loss are 0.  If no point carries an elevation, the elevation gain and loss
  are 0 and the minimum and maximum elevation are the number 0, not an infinite sentinel.
  If no point carries a time, the duration is undefined.  So a segment list in which
  every segment has fewer than 2 points and no point carries elevation or time data
  yields all six defaults.
\<close>

theorem stats_defaults:
  "((\<forall>segment \<in> set segs. length (points segment) < 2) \<longrightarrow>
      distance (calculateTrackStats segs) = 0 \<and>
      elevationGain (calculateTrackStats segs) = 0 \<and>
      elevationLoss (calculateTrackStats segs) = 0) \<and>
   ((\<forall>segment \<in> set segs. \<forall>p \<in> set (points segment). ele p = None) \<longrightarrow>
      elevationGain (calculateTrackStats segs) = 0 \<and>
      elevationLoss (calculateTrackStats segs) = 0 \<and>
      minElevation (calculateTrackStats segs) = Finite 0 \<and>
      maxElevation (calculateTrackStats segs) = Finite 0) \<and>
   ((\<forall>segment \<in> set segs. \<forall>p \<in> set (points segment). time p = None) \<longrightarrow>
      duration (calculateTrackStats segs) = None)"
proof (intro conjI impI)
  assume short: "\<forall>segment \<in> set segs. length (points segment) < 2"
  then have z: "over_pairs g (points segment) = 0" if "segment \<in> set segs" for g segment
    using that by (simp add: over_pairs_def adjacent_short)
  show "distance (calculateTrackStats segs) = 0"
    unfolding distance_calculateTrackStats
    by (rule sum_list_all_zero) (simp add: segment_distance_def z)
  show "elevationGain (calculateTrackStats segs) = 0"
    unfolding elevationGain_calculateTrackStats
    by (rule sum_list_all_zero) (simp add: segment_gain_def z)
  show "elevationLoss (calculateTrackStats segs) = 0"
    unfolding elevationLoss_calculateTrackStats
    by (rule sum_list_all_zero) (simp add: segment_loss_def z)
next
  assume bare: "\<forall>segment \<in> set segs. \<forall>p \<in> set (points segment). ele p = None"
  then have g: "segment_gain segment = 0" and l: "segment_loss segment = 0"
    if "segment \<in> set segs" for segment
    using that
    by (auto simp: segment_gain_def segment_loss_def pair_gain_no_ele pair_loss_no_ele
        intro!: over_pairs_zero dest: adjacent_left)
  show "elevationGain (calculateTrackStats segs) = 0"
    unfolding elevationGain_calculateTrackStats by (rule sum_list_all_zero) (rule g)
  show "elevationLoss (calculateTrackStats segs) = 0"
    unfolding elevationLoss_calculateTrackStats by (rule sum_list_all_zero) (rule l)
  show "minElevation (calculateTrackStats segs) = Finite 0"
    using no_ele_fold [OF bare] by (simp add: calculateTrackStats_def Let_def)
  show "maxElevation (calculateTrackStats segs) = Finite 0"
    using no_ele_fold [OF bare] by (simp add: calculateTrackStats_def Let_def)
next
  assume "\<forall>segment \<in> set segs. \<forall>p \<in> set (points segment). time p = None"
  from no_time_fold [OF this] show "duration (calculateTrackStats segs) = None"
    by (simp add: calculateTrackStats_def Let_def)
qed

theorem stats_defaults_witness:
  "map (length \<circ> points) one_bare_point = [1] \<and>
   map (map ele \<circ> points) one_bare_point = [[None]] \<and>
   map (map time \<circ> points) one_bare_point = [[None]] \<and>
   calculateTrackStats one_bare_point =
     \<lparr>distance = 0, elevationGain = 0, elevationLoss = 0,
      minElevation = Finite 0, maxElevation = Finite 0, duration = None\<rparr>"
proof -
  have h1: "\<forall>segment \<in> set one_bare_point. length (points segment) < 2"
    and h2: "\<forall>segment \<in> set one_bare_point. \<forall>p \<in> set (points segment). ele p = None"
    and h3: "\<forall>segment \<in> set one_bare_point. \<forall>p \<in> set (points segment). time p = None"
    by (simp_all add: one_bare_point_def)
  from stats_defaults [of one_bare_point] h1 h2 h3
  have "distance (calculateTrackStats one_bare_point) = 0"
    "elevationGain (calculateTrackStats one_bare_point) = 0"
    "elevationLoss (calculateTrackStats one_bare_point) = 0"
    "minElevation (calculateTrackStats one_bare_point) = Finite 0"
    "maxElevation (calculateTrackStats one_bare_point) = Finite 0"
    "duration (calculateTrackStats one_bare_point) = None"
    by blast+
  then have "calculateTrackStats one_bare_point =
     \<lparr>distance = 0, elevationGain = 0, elevationLoss = 0,
      minElevation = Finite 0, maxElevation = Finite 0, duration = None\<rparr>"
    by (intro TrackStats.equality) simp_all
  then show ?thesis by (simp add: one_bare_point_def)
qed

section \<open>Claims about the normalizer\<close>

text \<open>
  Claim C4.  For a parsed document with zero tracks, zero routes and zero waypoints (each
  list undefined or empty), the normalizer fails with the NoGeometryFound error; it
  returns no track list.
\<close>

theorem no_geometry_fails:
  "list_of (gpx_tracks (parse gpxText)) = [] \<Longrightarrow>
   list_of (gpx_routes (parse gpxText)) = [] \<Longrightarrow>
   list_of (gpx_waypoints (parse gpxText)) = [] \<Longrightarrow>
   parseGPXString (Some parse) new_Date Date_now gpxText fileName = Inl NoGeometryFound"
proof -
  assume none: "list_of (gpx_tracks (parse gpxText)) = []"
    "list_of (gpx_routes (parse gpxText)) = []"
    "list_of (gpx_waypoints (parse gpxText)) = []"
  have "routes_forEach Date_now [] 0 (tracks_forEach new_Date Date_now fileName [] 0 []) = []"
    by simp
  with none show ?thesis
    by (simp add: parseGPXString_steps)
qed

theorem no_geometry_fails_witness:
  "list_of (gpx_tracks (no_geometry ''<gpx/>'')) = [] \<and>
   list_of (gpx_routes (no_geometry ''<gpx/>'')) = [] \<and>
   list_of (gpx_waypoints (no_geometry ''<gpx/>'')) = [] \<and>
   parseGPXString (Some no_geometry) epoch stopped_clock ''<gpx/>'' (Some ''ride.gpx'') =
     Inl (Error ''No tracks, routes, or waypoints found in GPX file'')"
proof -
  have h: "list_of (gpx_tracks (no_geometry ''<gpx/>'')) = []"
    "list_of (gpx_routes (no_geometry ''<gpx/>'')) = []"
    "list_of (gpx_waypoints (no_geometry ''<gpx/>'')) = []"
    by (simp_all add: no_geometry_def list_of_def)
  from no_geometry_fails [where parse = no_geometry and gpxText = "''<gpx/>''"
      and new_Date = epoch and Date_now = stopped_clock and fileName = "Some ''ride.gpx''", OF h] h
  show ?thesis by (simp add: NoGeometryFound_def)
qed




text \<open>
  Claim C5.  Every track the normalizer emits is named by the source-provided name when
  present, else by the uploaded filename when available, else by an ordinal label.  The
  branch for source tracks does this, and so does the branch for the waypoints up to its
  label; the branch for routes leaves the filename step out.  Evaluated on a file named
  "ride.gpx": an unnamed route is emitted as "Route 1", where the rule of the claim
  resolves the name to "ride.gpx", while an unnamed source track of the same file is
  emitted as "ride.gpx".
\<close>

theorem unnamed_route_ignores_filename:
  "list_of (gpx_routes (unnamed_route ''<gpx/>'')) = [\<lparr>rte_name = None, rte_points = []\<rparr>] \<and>
   parseGPXString (Some unnamed_route) epoch stopped_clock ''<gpx/>'' (Some ''ride.gpx'') =
     Inr [\<lparr>track_id = ''route-0-0'', name = ''Route 1'', segments = [\<lparr>points = []\<rparr>],
           style = default_style, visible = True,
           stats = Some \<lparr>distance = 0, elevationGain = 0, elevationLoss = 0,
                          minElevation = Finite 0, maxElevation = Finite 0,
                          duration = None\<rparr>\<rparr>] \<and>
   resolve_name [None, Some ''ride.gpx''] ''Route 1'' = ''ride.gpx'' \<and>
   parseGPXString (Some track_and_route) epoch stopped_clock ''<gpx/>'' (Some ''ride.gpx'') =
     Inr [\<lparr>track_id = ''track-0-0'', name = ''ride.gpx'', segments = [],
           style = default_style, visible = True,
           stats = Some \<lparr>distance = 0, elevationGain = 0, elevationLoss = 0,
                          minElevation = Finite 0, maxElevation = Finite 0,
                          duration = None\<rparr>\<rparr>,
          \<lparr>track_id = ''route-0-0'', name = ''Loop'', segments = [\<lparr>points = []\<rparr>],
           style = default_style, visible = True,
           stats = Some \<lparr>distance = 0, elevationGain = 0, elevationLoss = 0,
                          minElevation = Finite 0, maxElevation = Finite 0,
                          duration = None\<rparr>\<rparr>]"
proof (intro conjI)
  show "list_of (gpx_routes (unnamed_route ''<gpx/>'')) = [\<lparr>rte_name = None, rte_points = []\<rparr>]"
    by (simp add: unnamed_route_def list_of_def)
  show "resolve_name [None, Some ''ride.gpx''] ''Route 1'' = ''ride.gpx''"
    by simp
  show "parseGPXString (Some unnamed_route) epoch stopped_clock ''<gpx/>'' (Some ''ride.gpx'') =
     Inr [\<lparr>track_id = ''route-0-0'', name = ''Route 1'', segments = [\<lparr>points = []\<rparr>],
           style = default_style, visible = True,
           stats = Some \<lparr>distance = 0, elevationGain = 0, elevationLoss = 0,
                          minElevation = Finite 0, maxElevation = Finite 0,
                          duration = None\<rparr>\<rparr>]"
    by (simp add: unnamed_route_def gpx_eval empty_stats)
  have no_stats: "calculateTrackStats [] =
      \<lparr>distance = 0, elevationGain = 0, elevationLoss = 0,
       minElevation = Finite 0, maxElevation = Finite 0, duration = None\<rparr>"
    by (simp add: stats_eval)
  show "parseGPXString (Some track_and_route) epoch stopped_clock ''<gpx/>'' (Some ''ride.gpx'') =
     Inr [\<lparr>track_id = ''track-0-0'', name = ''ride.gpx'', segments = [],
           style = default_style, visible = True,
           stats = Some \<lparr>distance = 0, elevationGain = 0, elevationLoss = 0,
                          minElevation = Finite 0, maxElevation = Finite 0,
                          duration = None\<rparr>\<rparr>,
          \<lparr>track_id = ''route-0-0'', name = ''Loop'', segments = [\<lparr>points = []\<rparr>],
           style = default_style, visible = True,
           stats = Some \<lparr>distance = 0, elevationGain = 0, elevationLoss = 0,
                          minElevation = Finite 0, maxElevation = Finite 0,
                          duration = None\<rparr>\<rparr>]"
    by (simp add: track_and_route_def gpx_eval empty_stats no_stats)
qed

section \<open>Claims about the photo upload and the track collection\<close>

text \<open>
  Claim C8.  A batch of uploaded photo files is never aborted by the failure of one file.
  \<open>validateFiles\<close> and \<open>addMultiplePhotos\<close> are total: they return for every batch.  The
  files that fail the validation (extension not accepted, or size over 50 MB) are
  rejected one by one, each with its own toast, and the others go on.  Of these, a file
  whose processing fails is skipped, and the caller receives exactly one photo for each
  file whose processing succeeds, in the order of the files; the photos are appended to
  the hook's collection.  The processing of a file fails exactly when the file cannot be
  read into a data URL: a failure of the EXIF library or of the thumbnail is caught
  inside and the photo is still made.  In particular, of 3 files where file 2 has an
  extension that is not accepted and files 1 and 3 pass and can be read, exactly 2 photos
  are made and one toast, "Invalid file format", is shown.
\<close>

theorem batch_upload_keeps_going:
  "fst (validateFiles fmts files) = filter (passes_validation fmts) files \<and>
   length (snd (validateFiles fmts files)) =
     length (filter (\<lambda>f. \<not> passes_validation fmts f) files) \<and>
   map photo_name (fst (addMultiplePhotos env (fst (validateFiles fmts files)) st)) =
     map file_name (filter (processing_succeeds env) (filter (passes_validation fmts) files)) \<and>
   photos (snd (handleFiles fmts (\<lambda>fs s. Inr (snd (addMultiplePhotos env fs s))) files st)) =
     photos st @ fst (addMultiplePhotos env (fst (validateFiles fmts files)) st) \<and>
   (\<exists>p. process_file env k file = Inr p) = processing_succeeds env file \<and>
   (fileExtension (file_name f2) \<notin> set fmts \<and>
    passes_validation fmts f1 \<and> passes_validation fmts f3 \<and>
    processing_succeeds env f1 \<and> processing_succeeds env f3 \<longrightarrow>
      length (fst (addMultiplePhotos env (fst (validateFiles fmts [f1, f2, f3])) st)) = 2 \<and>
      map title (snd (validateFiles fmts [f1, f2, f3])) = [''Invalid file format''])"
proof (intro conjI impI)
  show "fst (validateFiles fmts files) = filter (passes_validation fmts) files"
    by (rule fst_validateFiles)
  show "length (snd (validateFiles fmts files)) =
      length (filter (\<lambda>f. \<not> passes_validation fmts f) files)"
    by (rule length_snd_validateFiles)
  show "map photo_name (fst (addMultiplePhotos env (fst (validateFiles fmts files)) st)) =
      map file_name (filter (processing_succeeds env) (filter (passes_validation fmts) files))"
    by (simp only: fst_addMultiplePhotos fst_validateFiles photos_loop_names) simp
  show "photos (snd (handleFiles fmts (\<lambda>fs s. Inr (snd (addMultiplePhotos env fs s))) files st)) =
      photos st @ fst (addMultiplePhotos env (fst (validateFiles fmts files)) st)"
    by (simp only: photos_handleFiles fst_addMultiplePhotos)
  show "(\<exists>p. process_file env k file = Inr p) = processing_succeeds env file"
    by (rule process_file_Inr_iff)
next
  assume h: "fileExtension (file_name f2) \<notin> set fmts \<and>
    passes_validation fmts f1 \<and> passes_validation fmts f3 \<and>
    processing_succeeds env f1 \<and> processing_succeeds env f3"
  then have n2: "\<not> passes_validation fmts f2" by (simp add: passes_validation_def)
  have "length (map photo_name (fst (addMultiplePhotos env (fst (validateFiles fmts [f1, f2, f3])) st))) = 2"
    using h n2 by (simp only: fst_addMultiplePhotos fst_validateFiles photos_loop_names) simp
  then show "length (fst (addMultiplePhotos env (fst (validateFiles fmts [f1, f2, f3])) st)) = 2"
    by simp
  show "map title (snd (validateFiles fmts [f1, f2, f3])) = [''Invalid file format'']"
    unfolding validateFiles_def titles_validate_loop using h n2 by simp
qed

theorem batch_upload_keeps_going_witness:
  "fileExtension (file_name file_2) = ''.txt'' \<and>
   passes_validation acceptedFormats_default file_1 \<and>
   passes_validation acceptedFormats_default file_3 \<and>
   processing_succeeds bare_env file_1 \<and> processing_succeeds bare_env file_3 \<and>
   length (fst (addMultiplePhotos bare_env
     (fst (validateFiles acceptedFormats_default [file_1, file_2, file_3])) no_photos)) = 2 \<and>
   map title (snd (validateFiles acceptedFormats_default [file_1, file_2, file_3])) =
     [''Invalid file format'']"
proof -
  have h2: "fileExtension (file_name file_2) \<notin> set acceptedFormats_default"
    by (simp add: fileExtension_file_2 acceptedFormats_default_def)
  have h1: "passes_validation acceptedFormats_default file_1"
    by (simp add: passes_validation_def fileExtension_file_1 acceptedFormats_default_def)
      (simp add: file_1_def)
  have h3: "passes_validation acceptedFormats_default file_3"
    by (simp add: passes_validation_def fileExtension_file_3 acceptedFormats_default_def)
      (simp add: file_3_def)
  have p: "processing_succeeds bare_env file_1" "processing_succeeds bare_env file_3"
    by (simp_all add: processing_succeeds_def bare_env_def)
  from batch_upload_keeps_going [where fmts = acceptedFormats_default and env = bare_env
      and st = no_photos and ?f1.0 = file_1 and ?f2.0 = file_2 and ?f3.0 = file_3]
    h1 h2 h3 p
  have "length (fst (addMultiplePhotos bare_env
      (fst (validateFiles acceptedFormats_default [file_1, file_2, file_3])) no_photos)) = 2 \<and>
    map title (snd (validateFiles acceptedFormats_default [file_1, file_2, file_3])) =
      [''Invalid file format'']"
    by blast
  with h1 h3 p show ?thesis by (simp add: fileExtension_file_2)
qed

text \<open>
  Claim C10.  \<open>updateTrackStyle\<close> changes only the style of the tracks whose id is the given
  one, merging the given partial style into it.  Every other track of the collection is
  unchanged; the id, name, segments, visible flag and stats of a matched track are
  unchanged; the collection keeps its length and order; and when no track has the given
  id the whole collection is unchanged.
\<close>

theorem updateTrackStyle_frame:
  "length (updateTrackStyle trackId new tracks) = length tracks \<and>
   (\<forall>i < length tracks.
      (track_id (tracks ! i) \<noteq> trackId \<longrightarrow>
         updateTrackStyle trackId new tracks ! i = tracks ! i) \<and>
      (track_id (tracks ! i) = trackId \<longrightarrow>
         updateTrackStyle trackId new tracks ! i =
           (tracks ! i)\<lparr>style := merge_style (style (tracks ! i)) new\<rparr>) \<and>
      track_id (updateTrackStyle trackId new tracks ! i) = track_id (tracks ! i) \<and>
      name (updateTrackStyle trackId new tracks ! i) = name (tracks ! i) \<and>
      segments (updateTrackStyle trackId new tracks ! i) = segments (tracks ! i) \<and>
      visible (updateTrackStyle trackId new tracks ! i) = visible (tracks ! i) \<and>
      stats (updateTrackStyle trackId new tracks ! i) = stats (tracks ! i)) \<and>
   ((\<forall>t \<in> set tracks. track_id t \<noteq> trackId) \<longrightarrow>
      updateTrackStyle trackId new tracks = tracks)"
proof (intro conjI allI impI)
  show "length (updateTrackStyle trackId new tracks) = length tracks"
    by (simp add: updateTrackStyle_def)
next
  assume "\<forall>t \<in> set tracks. track_id t \<noteq> trackId"
  then show "updateTrackStyle trackId new tracks = tracks"
    by (simp add: updateTrackStyle_def map_idI)
qed (simp_all add: updateTrackStyle_def)

theorem updateTrackStyle_frame_witness:
  "updateTrackStyle ''track-1-0'' dashed_blue [track_a, track_b] ! 1 = track_b \<and>
   updateTrackStyle ''track-1-0'' dashed_blue [track_a, track_b] ! 0 =
     track_a\<lparr>style := \<lparr>color = ''#3182CE'', width = 3, opacity = 1, lineStyle = dashed\<rparr>\<rparr> \<and>
   name (updateTrackStyle ''track-1-0'' dashed_blue [track_a, track_b] ! 0) = ''Morning'' \<and>
   updateTrackStyle ''track-9-9'' dashed_blue [track_a, track_b] = [track_a, track_b]"
proof -
  have ia: "track_id track_a = ''track-1-0''" and ib: "track_id track_b \<noteq> ''track-1-0''"
    by (simp_all add: track_a_def track_b_def)
  have none: "\<forall>t \<in> set [track_a, track_b]. track_id t \<noteq> ''track-9-9''"
    by (simp add: track_a_def track_b_def)
  have m: "merge_style (style track_a) dashed_blue =
      \<lparr>color = ''#3182CE'', width = 3, opacity = 1, lineStyle = dashed\<rparr>"
    by (simp add: merge_style_def track_a_def dashed_blue_def default_style_def)
  note f = updateTrackStyle_frame [of "''track-1-0''" dashed_blue "[track_a, track_b]"]
  from f ib have 1: "updateTrackStyle ''track-1-0'' dashed_blue [track_a, track_b] ! 1 = track_b"
    by (auto dest!: spec [of _ 1])
  from f ia have 0: "updateTrackStyle ''track-1-0'' dashed_blue [track_a, track_b] ! 0 =
      track_a\<lparr>style := merge_style (style track_a) dashed_blue\<rparr>"
    and n: "name (updateTrackStyle ''track-1-0'' dashed_blue [track_a, track_b] ! 0) = name track_a"
    by (auto dest!: spec [of _ 0])
  from updateTrackStyle_frame [of "''track-9-9''" dashed_blue "[track_a, track_b]"] none
  have 9: "updateTrackStyle ''track-9-9'' dashed_blue [track_a, track_b] = [track_a, track_b]"
    by blast
  from 0 1 n 9 show ?thesis by (simp add: m) (simp add: track_a_def)
qed

end
